theory Spec2Isabelle
  imports Main
begin

section \<open>Python values, exceptions and the two lookup primitives\<close>

text \<open>
  The settings module \<^verbatim>\<open>pynamodb/settings.py\<close> stores primitive values only: integers,
  strings, booleans and \<^verbatim>\<open>None\<close>. Python integers are unbounded, so they are \<open>int\<close>.
\<close>

datatype pyval = PyNone | PyBool bool | PyInt int | PyStr string

text \<open>
  The exceptions of the module. \<open>ValueError\<close> is the one it raises itself (with its
  message); \<open>AttributeError\<close> and \<open>KeyError\<close> are what \<^verbatim>\<open>getattr\<close> and a dictionary
  subscript raise on a missing name; \<open>LoadError\<close> stands for whatever exception executing
  an override file raises inside \<^verbatim>\<open>_load_module\<close>.
\<close>

datatype py_error = ValueError string | AttributeError string | KeyError string | LoadError

text \<open>
  A namespace is the attribute table of a loaded module object: exactly the names that
  \<^verbatim>\<open>hasattr\<close> finds and \<^verbatim>\<open>getattr\<close> reads.
\<close>

type_synonym namespace = "string \<rightharpoonup> pyval"

definition hasattr :: "namespace \<Rightarrow> string \<Rightarrow> bool" where
  "hasattr ns key = (ns key \<noteq> None)"

definition getattr :: "namespace \<Rightarrow> string \<Rightarrow> py_error + pyval" where
  "getattr ns key = (case ns key of None \<Rightarrow> Inl (AttributeError key) | Some v \<Rightarrow> Inr v)"

definition getitem :: "(string \<rightharpoonup> pyval) \<Rightarrow> string \<Rightarrow> py_error + pyval" where
  "getitem d key = (case d key of None \<Rightarrow> Inl (KeyError key) | Some v \<Rightarrow> Inr v)"

section \<open>The default table\<close>

text \<open>
  Modelled from the spec: \<^verbatim>\<open>pynamodb/constants.py\<close>, which binds the seven key names that
  \<^verbatim>\<open>settings.py\<close> imports, is not part of the sources at hand. The names below are the
  recognized setting keys of the spec's interface table.
\<close>

definition CONNECT_TIMEOUT_SECONDS :: string where
  "CONNECT_TIMEOUT_SECONDS = ''connect_timeout_seconds''"

definition READ_TIMEOUT_SECONDS :: string where
  "READ_TIMEOUT_SECONDS = ''read_timeout_seconds''"

definition MAX_RETRY_ATTEMPTS :: string where
  "MAX_RETRY_ATTEMPTS = ''max_retry_attempts''"

definition MAX_POOL_CONNECTIONS :: string where
  "MAX_POOL_CONNECTIONS = ''max_pool_connections''"

definition BASE_BACKOFF_MS :: string where
  "BASE_BACKOFF_MS = ''base_backoff_ms''"

definition REGION :: string where
  "REGION = ''region''"

definition ALLOW_RATE_LIMITED_SCAN_WITHOUT_CONSUMED_CAPACITY :: string where
  "ALLOW_RATE_LIMITED_SCAN_WITHOUT_CONSUMED_CAPACITY =
     ''allow_rate_limited_scan_without_consumed_capacity''"

lemmas key_names =
  CONNECT_TIMEOUT_SECONDS_def READ_TIMEOUT_SECONDS_def MAX_RETRY_ATTEMPTS_def
  MAX_POOL_CONNECTIONS_def BASE_BACKOFF_MS_def REGION_def
  ALLOW_RATE_LIMITED_SCAN_WITHOUT_CONSUMED_CAPACITY_def

text \<open>
  \<^verbatim>\<open>DEFAULT_SETTINGS\<close> (lines 16 to 24): a dictionary display, built entry by entry in the
  order written.
\<close>

definition DEFAULT_SETTINGS :: "string \<rightharpoonup> pyval" where
  "DEFAULT_SETTINGS =
     [CONNECT_TIMEOUT_SECONDS \<mapsto> PyInt 15,
      READ_TIMEOUT_SECONDS \<mapsto> PyInt 30,
      MAX_RETRY_ATTEMPTS \<mapsto> PyInt 3,
      MAX_POOL_CONNECTIONS \<mapsto> PyInt 10,
      BASE_BACKOFF_MS \<mapsto> PyInt 25,
      REGION \<mapsto> PyStr ''us-east-1'',
      ALLOW_RATE_LIMITED_SCAN_WITHOUT_CONSUMED_CAPACITY \<mapsto> PyBool False]"

text \<open>
  The documented defaults, written from the table of recognized setting keys in the
  spec's section on external interfaces, independently of the dictionary above.
\<close>

definition documented_defaults :: "(string \<times> pyval) list" where
  "documented_defaults =
     [(''connect_timeout_seconds'', PyInt 15),
      (''read_timeout_seconds'', PyInt 30),
      (''max_retry_attempts'', PyInt 3),
      (''max_pool_connections'', PyInt 10),
      (''base_backoff_ms'', PyInt 25),
      (''region'', PyStr ''us-east-1''),
      (''allow_rate_limited_scan_without_consumed_capacity'', PyBool False)]"

section \<open>The Settings instance and its accessor\<close>

text \<open>
  A \<^verbatim>\<open>Settings\<close> object has one instance attribute, \<^verbatim>\<open>_override_settings\<close>: the loaded
  module, or \<^verbatim>\<open>None\<close>. The record is the instance as a lookup finds it: what the
  attribute yields at that moment, the module's namespace or nothing.
\<close>

record Settings =
  override_settings :: "namespace option"

text \<open>
  \<^verbatim>\<open>Settings.__getattr__\<close> (lines 99 to 110). A module object is always true in a
  condition, so \<^verbatim>\<open>self._override_settings and ...\<close> tests that the attribute is not
  \<^verbatim>\<open>None\<close>.
\<close>

definition Settings_getattr :: "Settings \<Rightarrow> string \<Rightarrow> py_error + pyval" where
  "Settings_getattr self key =
     (if (case override_settings self of None \<Rightarrow> False | Some ns \<Rightarrow> hasattr ns key)
      then getattr (the (override_settings self)) key
      else if key \<in> dom DEFAULT_SETTINGS
      then getitem DEFAULT_SETTINGS key
      else Inr PyNone)"


section \<open>Constructing a Settings instance\<close>

text \<open>
  The operating system, as the constructor sees it: the process environment
  (\<^verbatim>\<open>os.environ\<close>) and the file system, taken to stay as they are while the program runs.
  A path is a string. A regular file holds a program: executed in the namespace of a
  module it leaves a namespace behind (the import system's own assignments included), and
  it either runs to its end or raises on the way, having done what it did until then.
\<close>

datatype source_file = Runs "namespace \<Rightarrow> namespace" | Breaks "namespace \<Rightarrow> namespace"

text \<open>A file of plain assignments binds its names anew and leaves the others alone.\<close>

definition binds :: "namespace \<Rightarrow> namespace \<Rightarrow> namespace" where
  "binds assignments ns = ns ++ assignments"

record world =
  environ :: "string \<rightharpoonup> string"
  files :: "string \<rightharpoonup> source_file"

definition getenv :: "world \<Rightarrow> string \<Rightarrow> string \<Rightarrow> string" where
  "getenv w name dflt = (case environ w name of None \<Rightarrow> dflt | Some v \<Rightarrow> v)"

text \<open>\<^verbatim>\<open>os.path.isfile\<close> on a string: it answers, whatever the string.\<close>

definition isfile :: "world \<Rightarrow> string \<Rightarrow> bool" where
  "isfile w path = (files w path \<noteq> None)"

text \<open>
  \<^verbatim>\<open>sys.modules\<close>: the module objects the interpreter has registered, by name, each with
  its namespace. A module object is known by the name it is registered under.
\<close>

type_synonym modules = "string \<rightharpoonup> namespace"

definition namespace_of :: "modules \<Rightarrow> string \<Rightarrow> namespace" where
  "namespace_of mods name = (case mods name of None \<Rightarrow> Map.empty | Some ns \<Rightarrow> ns)"

text \<open>
  \<^verbatim>\<open>_load_module\<close> (lines 27 to 34); both branches do the same. When a module is
  registered under the name, the loader executes the file in that very module object:
  what earlier loads bound stays unless the file rebinds it, and whoever holds the module
  sees the change. Otherwise it executes the file in a new module and registers it. When
  the file raises, a new module is discarded again, while a module that was there before
  keeps what the file did to it. The answer is the module object.
\<close>

definition load_module ::
  "world \<Rightarrow> modules \<Rightarrow> string \<Rightarrow> string \<Rightarrow> (py_error + string) \<times> modules" where
  "load_module w mods name path =
     (case files w path of
        None \<Rightarrow> (Inl LoadError, mods)
      | Some (Runs program) \<Rightarrow>
          (Inr name, mods(name \<mapsto> program (namespace_of mods name)))
      | Some (Breaks program) \<Rightarrow>
          (case mods name of
             None \<Rightarrow> (Inl LoadError, mods)
           | Some ns \<Rightarrow> (Inl LoadError, mods(name \<mapsto> program ns))))"

text \<open>
  The object a \<^verbatim>\<open>Settings\<close> instance is: its attribute \<^verbatim>\<open>_override_settings\<close> refers to the
  module object, or is \<^verbatim>\<open>None\<close>. A lookup reads through the reference and finds the
  namespace the module has at that moment.
\<close>

record settings_object =
  override_module :: "string option"

definition Settings_at :: "modules \<Rightarrow> settings_object \<Rightarrow> Settings" where
  "Settings_at mods obj =
     \<lparr>override_settings =
        (case override_module obj of None \<Rightarrow> None | Some name \<Rightarrow> mods name)\<rparr>"

text \<open>
  What construction leaves behind besides the object: the constructor's calls to
  \<^verbatim>\<open>warnings.warn\<close> (their messages, in order) and the records handed to the logger
  (level and message).
\<close>

datatype log_level = DEBUG | INFO | WARNING | ERROR | CRITICAL

record construction =
  new_object :: settings_object
  warned :: "string list"
  logged :: "(log_level \<times> string) list"

text \<open>The message of line 92, \<^verbatim>\<open>"The `%s` option is no longer supported" % meta_attr\<close>.\<close>

definition warning_text :: "string \<Rightarrow> string" where
  "warning_text meta_attr = ''The `'' @ meta_attr @ ''` option is no longer supported''"

text \<open>
  The loop of lines 90 to 92 over \<^verbatim>\<open>OBSOLETE_META_ATTRIBUTES\<close>. That constant lives in
  \<^verbatim>\<open>pynamodb/constants.py\<close>, which is not among the sources, so it is a parameter here
  and of the constructor.
\<close>

fun warn_obsolete :: "string list \<Rightarrow> namespace \<Rightarrow> string list" where
  "warn_obsolete [] ns = []"
| "warn_obsolete (meta_attr # rest) ns =
     (if hasattr ns meta_attr then warning_text meta_attr # warn_obsolete rest ns
      else warn_obsolete rest ns)"

text \<open>
  The argument \<^verbatim>\<open>settings_path\<close>, as far as the constructor can tell arguments apart: a
  string, or an object that is no string and is false in a condition (\<^verbatim>\<open>None\<close>, which is
  the default; also \<^verbatim>\<open>0\<close>, \<^verbatim>\<open>False\<close>, an empty container), of which the constructor uses
  nothing but that it is false. An object that is no string and is true in a condition
  is not a path, and is outside this model.
\<close>

datatype path_arg = Falsy | Path string

fun truthy :: "path_arg \<Rightarrow> bool" where
  "truthy Falsy = False"
| "truthy (Path s) = (s \<noteq> [])"

fun path_of :: "path_arg \<Rightarrow> string" where
  "path_of (Path s) = s"
| "path_of Falsy = []"

text \<open>Lines 86 and 87: which path the constructor goes on to examine.\<close>

definition resolve_settings_path :: "world \<Rightarrow> path_arg \<Rightarrow> string" where
  "resolve_settings_path w settings_path =
     (if \<not> truthy settings_path
      then getenv w ''PYNAMODB_CONFIG'' ''/etc/pynamodb/global_default_settings.py''
      else path_of settings_path)"

text \<open>
  \<^verbatim>\<open>Settings.__init__\<close> (lines 83 to 97), with the table of modules before and after.
  An exception of the loader leaves the constructor before anything is warned or logged.
\<close>

definition Settings_init ::
  "string list \<Rightarrow> world \<Rightarrow> modules \<Rightarrow> path_arg \<Rightarrow> (py_error + construction) \<times> modules"
  where
  "Settings_init OBSOLETE_META_ATTRIBUTES w mods settings_path =
     (let settings_path = resolve_settings_path w settings_path in
      if isfile w settings_path then
        (case load_module w mods ''__pynamodb_override_settings__'' settings_path of
           (Inl e, mods') \<Rightarrow> (Inl e, mods')
         | (Inr override, mods') \<Rightarrow>
             (Inr \<lparr>new_object = \<lparr>override_module = Some override\<rparr>,
                   warned = warn_obsolete OBSOLETE_META_ATTRIBUTES
                              (namespace_of mods' override),
                   logged = [(INFO, ''Override settings for pynamo available ''
                                      @ settings_path)]\<rparr>,
              mods'))
      else
        (Inr \<lparr>new_object = \<lparr>override_module = None\<rparr>,
              warned = [],
              logged = [(INFO, ''Override settings for pynamo not available ''
                                 @ settings_path),
                        (INFO, ''Using Default settings value'')]\<rparr>,
         mods))"

section \<open>The singleton holder\<close>

text \<open>
  Objects have identity: two \<^verbatim>\<open>Settings\<close> instances with the same override source are
  still two objects. The heap lists every instance constructed so far, and a reference is
  an index into it. A caller may hand the class any object: an instance, by reference,
  or a primitive value.
\<close>

type_synonym ref = nat

datatype pyobj = Instance ref | Value pyval

text \<open>
  The state of the module: the heap of instances, the class attribute \<^verbatim>\<open>_settings\<close> that
  \<^verbatim>\<open>SettingsMeta.__init__\<close> (lines 49 to 52) sets to \<^verbatim>\<open>None\<close>, the interpreter's table of
  modules, and two counters that make effects observable: how often
  \<^verbatim>\<open>Settings.__init__\<close> was entered and how many botocore sessions were created. The lock
  of line 52 is held only inside a call, so it appears in the interleaving model below
  and not between calls.
\<close>

record module_state =
  heap :: "settings_object list"
  settings_slot :: "ref option"
  constructor_runs :: nat
  sessions :: nat
  sys_modules :: modules

definition SettingsMeta_init :: module_state where
  "SettingsMeta_init =
     \<lparr>heap = [], settings_slot = None, constructor_runs = 0, sessions = 0,
      sys_modules = Map.empty\<rparr>"

definition DEFAULT :: string where
  "DEFAULT = ''default''"

text \<open>
  A call of the class, \<^verbatim>\<open>Settings(settings_path)\<close>: the constructor runs, on the table
  of modules as it is now, and when it returns the new object takes the next free
  address. What the loader did to the table of modules stays, whether the constructor
  returned or raised.
\<close>

definition construct ::
  "string list \<Rightarrow> world \<Rightarrow> path_arg \<Rightarrow> module_state \<Rightarrow> (py_error + ref) \<times> module_state"
  where
  "construct OBSOLETE_META_ATTRIBUTES w settings_path st =
     (case Settings_init OBSOLETE_META_ATTRIBUTES w (sys_modules st) settings_path of
        (Inl e, mods') \<Rightarrow>
          (Inl e, st\<lparr>constructor_runs := Suc (constructor_runs st), sys_modules := mods'\<rparr>)
      | (Inr c, mods') \<Rightarrow>
          (Inr (length (heap st)),
           st\<lparr>heap := heap st @ [new_object c],
              constructor_runs := Suc (constructor_runs st),
              sys_modules := mods'\<rparr>))"

text \<open>
  \<^verbatim>\<open>SettingsMeta.__getattr__\<close> (lines 54 to 65), run by one caller without interference.
  A \<^verbatim>\<open>Settings\<close> object is always true in a condition, so both tests ask whether the
  slot holds a reference. For any other key the hook calls \<^verbatim>\<open>__getattr__\<close> of \<^verbatim>\<open>type\<close>,
  which does not exist: an \<open>AttributeError\<close>.
\<close>

definition SettingsMeta_getattr ::
  "string list \<Rightarrow> world \<Rightarrow> string \<Rightarrow> module_state \<Rightarrow> (py_error + ref option) \<times> module_state"
  where
  "SettingsMeta_getattr OBSOLETE_META_ATTRIBUTES w key st =
     (if key = DEFAULT then
        (case settings_slot st of
           Some settings \<Rightarrow> (Inr (Some settings), st)
         | None \<Rightarrow>
             (if settings_slot st = None then
                (case construct OBSOLETE_META_ATTRIBUTES w Falsy st of
                   (Inl e, st') \<Rightarrow> (Inl e, st')
                 | (Inr r, st') \<Rightarrow>
                     (Inr (settings_slot (st'\<lparr>settings_slot := Some r\<rparr>)),
                      st'\<lparr>settings_slot := Some r\<rparr>))
              else (Inr (settings_slot st), st)))
      else (Inl (AttributeError ''__getattr__''), st))"

text \<open>
  \<^verbatim>\<open>SettingsMeta.__setattr__\<close> (lines 67 to 74). The branch for any other key hands the
  assignment to \<^verbatim>\<open>type.__setattr__\<close>; that branch is outside this model, which answers
  \<open>None\<close> for it.
\<close>

definition must_be_instance :: string where
  "must_be_instance = CHR 0x27 # DEFAULT @ CHR 0x27 # '' must be an instance of Settings''"

definition SettingsMeta_setattr ::
  "string \<Rightarrow> pyobj \<Rightarrow> module_state \<Rightarrow> ((py_error + unit) \<times> module_state) option" where
  "SettingsMeta_setattr key val st =
     (if key = DEFAULT then
        (case val of
           Value v \<Rightarrow> Some (Inl (ValueError must_be_instance), st)
         | Instance r \<Rightarrow> Some (Inr (), st\<lparr>settings_slot := Some r\<rparr>))
      else None)"

text \<open>\<^verbatim>\<open>Settings.get_session\<close> (lines 112 to 119): a new botocore session at every call.\<close>

definition Settings_get_session :: "ref \<Rightarrow> module_state \<Rightarrow> nat \<times> module_state" where
  "Settings_get_session self st = (sessions st, st\<lparr>sessions := Suc (sessions st)\<rparr>)"

subsection \<open>The operations of the module, applied in sequence\<close>

datatype operation =
    Get ref string
  | Current
  | Replace pyobj
  | Get_session ref
  | Construct path_arg

datatype outcome =
    Raises py_error
  | Gives pyval
  | Gives_instance "ref option"
  | Gives_session nat
  | Gives_nothing
  | No_such_object

text \<open>
  One operation on the module. An operation on an instance needs the instance: a
  reference beyond the heap denotes no object, and nothing happens. A lookup reads
  through the instance's reference into the table of modules as it is now.
\<close>

fun perform ::
  "string list \<Rightarrow> world \<Rightarrow> operation \<Rightarrow> module_state \<Rightarrow> outcome \<times> module_state" where
  "perform obs w (Get self key) st =
     (if self < length (heap st) then
        (case Settings_getattr (Settings_at (sys_modules st) (heap st ! self)) key of
           Inl e \<Rightarrow> (Raises e, st)
         | Inr v \<Rightarrow> (Gives v, st))
      else (No_such_object, st))"
| "perform obs w Current st =
     (case SettingsMeta_getattr obs w DEFAULT st of
        (Inl e, st') \<Rightarrow> (Raises e, st')
      | (Inr r, st') \<Rightarrow> (Gives_instance r, st'))"
| "perform obs w (Replace val) st =
     (if (case val of Instance r \<Rightarrow> r < length (heap st) | Value v \<Rightarrow> True) then
        (case SettingsMeta_setattr DEFAULT val st of
           Some (Inl e, st') \<Rightarrow> (Raises e, st')
         | Some (Inr u, st') \<Rightarrow> (Gives_nothing, st')
         | None \<Rightarrow> (Gives_nothing, st))
      else (No_such_object, st))"
| "perform obs w (Get_session self) st =
     (if self < length (heap st) then
        (case Settings_get_session self st of (n, st') \<Rightarrow> (Gives_session n, st'))
      else (No_such_object, st))"
| "perform obs w (Construct settings_path) st =
     (case construct obs w settings_path st of
        (Inl e, st') \<Rightarrow> (Raises e, st')
      | (Inr r, st') \<Rightarrow> (Gives_instance (Some r), st'))"

fun perform_all ::
  "string list \<Rightarrow> world \<Rightarrow> operation list \<Rightarrow> module_state \<Rightarrow> module_state" where
  "perform_all obs w [] st = st"
| "perform_all obs w (x # xs) st = perform_all obs w xs (snd (perform obs w x st))"

subsection \<open>Concurrent first-time callers\<close>

text \<open>
  Several threads evaluate \<^verbatim>\<open>Settings.default\<close> at once. Each is at one point of
  \<^verbatim>\<open>SettingsMeta.__getattr__\<close>, named by the line it is about to execute; a step of a thread
  is one read or write of the shared class attributes, one lock operation, or the
  constructor call made while holding the lock. Line 63 is two steps: the call (which
  allocates the object) and the assignment to \<^verbatim>\<open>_settings\<close>. Leaving the \<^verbatim>\<open>with\<close> block
  releases the lock, with the value to return or the exception to propagate in hand.
\<close>

datatype pc =
    Line_57
  | Line_58 "ref option"
  | Line_61
  | Line_62
  | Line_63_call
  | Line_63_store ref
  | Line_64
  | Leave_with "py_error + ref option"
  | Finished "py_error + ref option"

text \<open>
  One step of a thread on the shared state and the lock; \<open>None\<close> when the thread cannot
  move: it waits for the lock, or it has finished.
\<close>

fun thread_step ::
  "string list \<Rightarrow> world \<Rightarrow> pc \<Rightarrow> module_state \<times> bool \<Rightarrow> (pc \<times> module_state \<times> bool) option"
  where
  "thread_step obs w Line_57 (st, locked) = Some (Line_58 (settings_slot st), st, locked)"
| "thread_step obs w (Line_58 settings) (st, locked) =
     (case settings of
        Some r \<Rightarrow> Some (Finished (Inr (Some r)), st, locked)
      | None \<Rightarrow> Some (Line_61, st, locked))"
| "thread_step obs w Line_61 (st, locked) =
     (if locked then None else Some (Line_62, st, True))"
| "thread_step obs w Line_62 (st, locked) =
     (if settings_slot st = None then Some (Line_63_call, st, locked)
      else Some (Line_64, st, locked))"
| "thread_step obs w Line_63_call (st, locked) =
     (case construct obs w Falsy st of
        (Inl e, st') \<Rightarrow> Some (Leave_with (Inl e), st', locked)
      | (Inr r, st') \<Rightarrow> Some (Line_63_store r, st', locked))"
| "thread_step obs w (Line_63_store r) (st, locked) =
     Some (Line_64, st\<lparr>settings_slot := Some r\<rparr>, locked)"
| "thread_step obs w Line_64 (st, locked) =
     Some (Leave_with (Inr (settings_slot st)), st, locked)"
| "thread_step obs w (Leave_with result) (st, locked) = Some (Finished result, st, False)"
| "thread_step obs w (Finished result) (st, locked) = None"

record system =
  shared :: module_state
  lock_held :: bool
  threads :: "pc list"

text \<open>
  The scheduler picks a thread; a thread that cannot move leaves the system as it is.
  An interleaving is the list of the scheduler's picks.
\<close>

definition system_step :: "string list \<Rightarrow> world \<Rightarrow> nat \<Rightarrow> system \<Rightarrow> system" where
  "system_step obs w i sys =
     (if i < length (threads sys) then
        (case thread_step obs w (threads sys ! i) (shared sys, lock_held sys) of
           None \<Rightarrow> sys
         | Some (pc', st', locked') \<Rightarrow>
             \<lparr>shared = st', lock_held = locked', threads = (threads sys)[i := pc']\<rparr>)
      else sys)"

fun run :: "string list \<Rightarrow> world \<Rightarrow> nat list \<Rightarrow> system \<Rightarrow> system" where
  "run obs w [] sys = sys"
| "run obs w (i # schedule) sys = run obs w schedule (system_step obs w i sys)"

text \<open>\<open>n\<close> callers about to evaluate \<^verbatim>\<open>Settings.default\<close>, nobody holding the lock.\<close>

definition callers :: "nat \<Rightarrow> module_state \<Rightarrow> system" where
  "callers n st = \<lparr>shared = st, lock_held = False, threads = replicate n Line_57\<rparr>"

fun has_finished :: "pc \<Rightarrow> bool" where
  "has_finished (Finished result) = True"
| "has_finished t = False"

definition all_finished :: "system \<Rightarrow> bool" where
  "all_finished sys = list_all has_finished (threads sys)"

text \<open>The steps a thread still has before it, at most.\<close>

fun steps_left :: "pc \<Rightarrow> nat" where
  "steps_left Line_57 = 8"
| "steps_left (Line_58 settings) = 7"
| "steps_left Line_61 = 6"
| "steps_left Line_62 = 5"
| "steps_left Line_63_call = 4"
| "steps_left (Line_63_store r) = 3"
| "steps_left Line_64 = 2"
| "steps_left (Leave_with result) = 1"
| "steps_left (Finished result) = 0"

definition work_left :: "system \<Rightarrow> nat" where
  "work_left sys = sum_list (map steps_left (threads sys))"


subsection \<open>The invariant of the interleaving model\<close>

text \<open>
  A thread is in the critical section from the moment it has the lock until it has
  released it.
\<close>

fun in_critical :: "pc \<Rightarrow> bool" where
  "in_critical Line_62 = True"
| "in_critical Line_63_call = True"
| "in_critical (Line_63_store r) = True"
| "in_critical Line_64 = True"
| "in_critical (Leave_with result) = True"
| "in_critical t = False"

text \<open>
  The run has three phases, told apart by the shared state: nothing constructed yet;
  the instance constructed but not yet stored (line 63 between its two steps); the
  reference stored. In each phase only some points of the code can be occupied, and the
  values the threads hold in hand are determined.
\<close>

fun fresh_ok :: "pc \<Rightarrow> bool" where
  "fresh_ok Line_57 = True"
| "fresh_ok (Line_58 settings) = (settings = None)"
| "fresh_ok Line_61 = True"
| "fresh_ok Line_62 = True"
| "fresh_ok Line_63_call = True"
| "fresh_ok t = False"

fun built_ok :: "ref \<Rightarrow> pc \<Rightarrow> bool" where
  "built_ok new Line_57 = True"
| "built_ok new (Line_58 settings) = (settings = None)"
| "built_ok new Line_61 = True"
| "built_ok new (Line_63_store r) = (r = new)"
| "built_ok new t = False"

fun stored_ok :: "ref \<Rightarrow> pc \<Rightarrow> bool" where
  "stored_ok new Line_57 = True"
| "stored_ok new (Line_58 settings) = (settings = None \<or> settings = Some new)"
| "stored_ok new Line_61 = True"
| "stored_ok new Line_62 = True"
| "stored_ok new Line_64 = True"
| "stored_ok new (Leave_with result) = (result = Inr (Some new))"
| "stored_ok new (Finished result) = (result = Inr (Some new))"
| "stored_ok new t = False"

text \<open>The shared state once the constructor has returned, before the assignment.\<close>

definition built :: "module_state \<Rightarrow> settings_object \<Rightarrow> modules \<Rightarrow> module_state" where
  "built st0 obj mods' =
     st0\<lparr>heap := heap st0 @ [obj], constructor_runs := Suc (constructor_runs st0),
         sys_modules := mods'\<rparr>"

text \<open>
  The lock is held exactly when one thread is in the critical section, and never by two;
  the shared state is in one of the three phases and every thread fits the phase.
\<close>

definition singleton_inv :: "module_state \<Rightarrow> module_state \<Rightarrow> system \<Rightarrow> bool" where
  "singleton_inv st0 b sys \<longleftrightarrow>
     length (filter in_critical (threads sys)) = (if lock_held sys then 1 else 0)
     \<and> ((shared sys = st0 \<and> list_all fresh_ok (threads sys))
        \<or> (shared sys = b \<and> lock_held sys
           \<and> list_all (built_ok (length (heap st0))) (threads sys))
        \<or> (shared sys = b\<lparr>settings_slot := Some (length (heap st0))\<rparr>
           \<and> list_all (stored_ok (length (heap st0))) (threads sys)))"

text \<open>Sample inputs, for evaluating statements at a concrete world.\<close>

definition legacy_names :: "string list" where
  "legacy_names = [''session_cls'', ''request_timeout_seconds'']"

definition world_with :: "source_file \<Rightarrow> world" where
  "world_with file =
     \<lparr>environ = Map.empty,
      files = [''/etc/pynamodb/global_default_settings.py'' \<mapsto> file]\<rparr>"

definition bare_world :: world where
  "bare_world = \<lparr>environ = Map.empty, files = Map.empty\<rparr>"

definition two_files :: world where
  "two_files =
     \<lparr>environ = [''PYNAMODB_CONFIG'' \<mapsto> ''/srv/pynamodb.py''],
      files = [''/srv/pynamodb.py'' \<mapsto> Runs (binds [''region'' \<mapsto> PyStr ''eu-west-1'']),
               ''/tmp/settings.py'' \<mapsto> Runs (binds [''region'' \<mapsto> PyStr ''ap-south-1''])]\<rparr>"

section \<open>Lookup: defaults, overrides, unknown keys\<close>

lemma DEFAULT_SETTINGS_documented:
  "DEFAULT_SETTINGS = map_of documented_defaults"
  by (rule ext) (simp add: DEFAULT_SETTINGS_def documented_defaults_def key_names)

lemma dom_DEFAULT_SETTINGS:
  "dom DEFAULT_SETTINGS = fst ` set documented_defaults"
  by (simp add: DEFAULT_SETTINGS_documented dom_map_of_conv_image_fst)

lemma distinct_documented_keys: "distinct (map fst documented_defaults)"
  by (simp add: documented_defaults_def)

lemma Settings_getattr_no_override:
  "override_settings self = None \<Longrightarrow>
   Settings_getattr self key =
     (case DEFAULT_SETTINGS key of None \<Rightarrow> Inr PyNone | Some v \<Rightarrow> Inr v)"
  by (auto simp: Settings_getattr_def getitem_def dom_def split: option.splits)

lemma Settings_getattr_override:
  "override_settings self = Some ns \<Longrightarrow>
   Settings_getattr self key =
     (case ns key of
        Some v \<Rightarrow> Inr v
      | None \<Rightarrow> (case DEFAULT_SETTINGS key of None \<Rightarrow> Inr PyNone | Some v \<Rightarrow> Inr v))"
  by (auto simp: Settings_getattr_def getitem_def getattr_def hasattr_def dom_def
           split: option.splits)

text \<open>
  C1. With no override source, the accessor returns the documented default of every
  recognized key; among them \<open>region\<close> is \<open>us-east-1\<close> and \<open>max_retry_attempts\<close> is 3.
\<close>

theorem C1_defaults_without_override:
  "(\<forall>(k, v) \<in> set documented_defaults.
      Settings_getattr \<lparr>override_settings = None\<rparr> k = Inr v)
   \<and> Settings_getattr \<lparr>override_settings = None\<rparr> ''region'' = Inr (PyStr ''us-east-1'')
   \<and> Settings_getattr \<lparr>override_settings = None\<rparr> ''max_retry_attempts'' = Inr (PyInt 3)"
proof -
  have "Settings_getattr \<lparr>override_settings = None\<rparr> k = Inr v"
    if "(k, v) \<in> set documented_defaults" for k v
  proof -
    from that have "map_of documented_defaults k = Some v"
      using distinct_documented_keys by simp
    then show ?thesis
      by (simp add: Settings_getattr_no_override DEFAULT_SETTINGS_documented)
  qed
  moreover have "(''region'', PyStr ''us-east-1'') \<in> set documented_defaults"
    and "(''max_retry_attempts'', PyInt 3) \<in> set documented_defaults"
    by (simp_all add: documented_defaults_def)
  ultimately show ?thesis by blast
qed

theorem C1_defaults_without_override_witness:
  "(''base_backoff_ms'', PyInt 25) \<in> set documented_defaults
   \<and> Settings_getattr \<lparr>override_settings = None\<rparr> ''base_backoff_ms'' = Inr (PyInt 25)"
proof -
  have m: "(''base_backoff_ms'', PyInt 25) \<in> set documented_defaults"
    by (simp add: documented_defaults_def)
  with C1_defaults_without_override show ?thesis by blast
qed

text \<open>
  C2. Ordered lookup: a key the override source defines is answered from the override
  source, whatever the default table says; a key it does not define (or any key when
  there is no override source) is answered from the default table when that defines it.
\<close>

theorem C2_override_then_default:
  "(override_settings self = Some ns \<and> ns key = Some v
      \<longrightarrow> Settings_getattr self key = Inr v)
   \<and> ((override_settings self = None \<or> (override_settings self = Some ns \<and> ns key = None))
        \<and> DEFAULT_SETTINGS key = Some d
      \<longrightarrow> Settings_getattr self key = Inr d)"
  by (auto simp: Settings_getattr_override Settings_getattr_no_override)

theorem C2_override_then_default_witness:
  "Settings_getattr \<lparr>override_settings = Some [''region'' \<mapsto> PyStr ''eu-west-1'']\<rparr> ''region''
     = Inr (PyStr ''eu-west-1'')
   \<and> DEFAULT_SETTINGS ''region'' = Some (PyStr ''us-east-1'')
   \<and> Settings_getattr \<lparr>override_settings = Some [''region'' \<mapsto> PyStr ''eu-west-1'']\<rparr>
         ''max_retry_attempts''
     = Inr (PyInt 3)"
proof -
  let ?ns = "[''region'' \<mapsto> PyStr ''eu-west-1'']"
  let ?self = "\<lparr>override_settings = Some ?ns\<rparr>"
  have a: "override_settings ?self = Some ?ns" by simp
  have b: "?ns ''region'' = Some (PyStr ''eu-west-1'')" by simp
  have c: "?ns ''max_retry_attempts'' = None" by simp
  have d: "DEFAULT_SETTINGS ''max_retry_attempts'' = Some (PyInt 3)"
    by (simp add: DEFAULT_SETTINGS_def key_names)
  have e: "DEFAULT_SETTINGS ''region'' = Some (PyStr ''us-east-1'')"
    by (simp add: DEFAULT_SETTINGS_def key_names)
  from C2_override_then_default [of ?self ?ns "''region''" "PyStr ''eu-west-1''"] a b
  have "Settings_getattr ?self ''region'' = Inr (PyStr ''eu-west-1'')" by blast
  moreover
  from C2_override_then_default [of ?self ?ns "''max_retry_attempts''" _ "PyInt 3"] a c d
  have "Settings_getattr ?self ''max_retry_attempts'' = Inr (PyInt 3)" by blast
  ultimately show ?thesis using e by simp
qed

text \<open>
  C3. A key that neither the override source nor the default table defines is answered
  with \<open>None\<close>, as a value: the accessor raises nothing.
\<close>

theorem C3_unknown_key_is_None:
  "(case override_settings self of None \<Rightarrow> True | Some ns \<Rightarrow> ns key = None) \<Longrightarrow>
   DEFAULT_SETTINGS key = None \<Longrightarrow>
   Settings_getattr self key = Inr PyNone"
  by (cases "override_settings self")
     (simp_all add: Settings_getattr_override Settings_getattr_no_override)

theorem C3_unknown_key_is_None_witness:
  "DEFAULT_SETTINGS ''host'' = None
   \<and> Settings_getattr \<lparr>override_settings = Some [''region'' \<mapsto> PyStr ''eu-west-1'']\<rparr> ''host''
     = Inr PyNone"
proof -
  let ?self = "\<lparr>override_settings = Some [''region'' \<mapsto> PyStr ''eu-west-1'']\<rparr>"
  have a: "case override_settings ?self of None \<Rightarrow> True | Some ns \<Rightarrow> ns ''host'' = None"
    by simp
  have b: "DEFAULT_SETTINGS ''host'' = None"
    by (simp add: DEFAULT_SETTINGS_def key_names)
  from C3_unknown_key_is_None [OF a b] b show ?thesis by simp
qed

section \<open>Construction: obsolete names, missing files, the path\<close>

lemma warn_obsolete_filter:
  "warn_obsolete obs ns = map warning_text (filter (hasattr ns) obs)"
  by (induction obs) simp_all

lemma inj_warning_text: "inj warning_text"
  by (rule injI) (simp add: warning_text_def)

lemma Settings_init_runs:
  "files w (resolve_settings_path w p) = Some (Runs program) \<Longrightarrow>
   Settings_init obs w mods p =
     (Inr \<lparr>new_object = \<lparr>override_module = Some ''__pynamodb_override_settings__''\<rparr>,
           warned = warn_obsolete obs
                      (program (namespace_of mods ''__pynamodb_override_settings__'')),
           logged = [(INFO, ''Override settings for pynamo available ''
                             @ resolve_settings_path w p)]\<rparr>,
      mods(''__pynamodb_override_settings__''
             \<mapsto> program (namespace_of mods ''__pynamodb_override_settings__'')))"
  by (simp add: Settings_init_def isfile_def load_module_def namespace_of_def)

lemma Settings_init_breaks:
  "files w (resolve_settings_path w p) = Some (Breaks program) \<Longrightarrow>
   Settings_init obs w mods p =
     (Inl LoadError,
      case mods ''__pynamodb_override_settings__'' of
        None \<Rightarrow> mods
      | Some ns \<Rightarrow> mods(''__pynamodb_override_settings__'' \<mapsto> program ns))"
  by (simp add: Settings_init_def isfile_def load_module_def split: option.splits)

lemma Settings_init_missing:
  "files w (resolve_settings_path w p) = None \<Longrightarrow>
   Settings_init obs w mods p =
     (Inr \<lparr>new_object = \<lparr>override_module = None\<rparr>,
           warned = [],
           logged = [(INFO, ''Override settings for pynamo not available ''
                             @ resolve_settings_path w p),
                     (INFO, ''Using Default settings value'')]\<rparr>,
      mods)"
  by (simp add: Settings_init_def isfile_def)

lemma Settings_at_module [simp]:
  "Settings_at (mods(name \<mapsto> ns)) \<lparr>override_module = Some name\<rparr> = \<lparr>override_settings = Some ns\<rparr>"
  by (simp add: Settings_at_def)

lemma Settings_at_None [simp]:
  "Settings_at mods \<lparr>override_module = None\<rparr> = \<lparr>override_settings = None\<rparr>"
  by (simp add: Settings_at_def)

lemma count_list_map_inj:
  "inj f \<Longrightarrow> count_list (map f xs) (f x) = count_list xs x"
  by (induction xs) (auto dest: injD)

lemma count_list_filter_distinct:
  "distinct xs \<Longrightarrow> count_list (filter P xs) x = (if x \<in> set xs \<and> P x then 1 else 0)"
  by (induction xs) auto

lemma resolve_default_path:
  "resolve_settings_path (world_with file) Falsy = ''/etc/pynamodb/global_default_settings.py''"
  "resolve_settings_path bare_world Falsy = ''/etc/pynamodb/global_default_settings.py''"
  by (simp_all add: resolve_settings_path_def getenv_def world_with_def bare_world_def)

lemma files_world_with:
  "files (world_with file) (resolve_settings_path (world_with file) Falsy) = Some file"
  by (simp add: resolve_default_path) (simp add: world_with_def)

lemma files_bare_world:
  "files bare_world (resolve_settings_path bare_world Falsy) = None"
  by (simp add: bare_world_def)

lemma binds_empty [simp]: "binds assignments Map.empty = assignments"
  by (simp add: binds_def)

lemma namespace_of_empty [simp]: "namespace_of Map.empty name = Map.empty"
  by (simp add: namespace_of_def)

text \<open>
  C6 (as amended). An obsolete name found in the loaded override source is warned about
  and loading goes on; the accessor then serves that name from the override source like
  any other name, and what it returns for every other key is what it would return were
  the obsolete name not there.
\<close>

theorem C6_obsolete_key_warns_and_is_served:
  assumes "files w (resolve_settings_path w settings_path) = Some (Runs program)"
      and "program (namespace_of mods ''__pynamodb_override_settings__'') = ns"
      and "k \<in> set OBSOLETE" and "ns k = Some v"
  shows "\<exists>c mods'. Settings_init OBSOLETE w mods settings_path = (Inr c, mods')
           \<and> warning_text k \<in> set (warned c)
           \<and> Settings_getattr (Settings_at mods' (new_object c)) k = Inr v
           \<and> (\<forall>key. key \<noteq> k \<longrightarrow>
                 Settings_getattr (Settings_at mods' (new_object c)) key
                   = Settings_getattr \<lparr>override_settings = Some (ns(k := None))\<rparr> key)"
  using assms(2-4)
  by (simp add: Settings_init_runs [OF assms(1)] warn_obsolete_filter hasattr_def
                Settings_getattr_override)

text \<open>
  C6 as stated does not hold: with \<open>session_cls\<close> among the obsolete names, an override
  file that binds it is loaded with one warning, and the accessor then answers
  \<open>session_cls\<close> with the file's value, where it answers \<open>None\<close> for the same file
  without that binding.
\<close>

theorem C6_presence_alters_accessor:
  "Settings_init legacy_names
     (world_with (Runs (binds [''session_cls'' \<mapsto> PyStr ''requests''])))
     Map.empty Falsy
     = (Inr \<lparr>new_object = \<lparr>override_module = Some ''__pynamodb_override_settings__''\<rparr>,
             warned = [''The `session_cls` option is no longer supported''],
             logged = [(INFO, ''Override settings for pynamo available /etc/pynamodb/global_default_settings.py'')]\<rparr>,
        [''__pynamodb_override_settings__'' \<mapsto> [''session_cls'' \<mapsto> PyStr ''requests'']])
   \<and> Settings_getattr
        (Settings_at
           [''__pynamodb_override_settings__'' \<mapsto> [''session_cls'' \<mapsto> PyStr ''requests'']]
           \<lparr>override_module = Some ''__pynamodb_override_settings__''\<rparr>)
        ''session_cls''
     = Inr (PyStr ''requests'')
   \<and> Settings_init legacy_names (world_with (Runs (binds Map.empty))) Map.empty Falsy
     = (Inr \<lparr>new_object = \<lparr>override_module = Some ''__pynamodb_override_settings__''\<rparr>,
             warned = [],
             logged = [(INFO, ''Override settings for pynamo available /etc/pynamodb/global_default_settings.py'')]\<rparr>,
        [''__pynamodb_override_settings__'' \<mapsto> Map.empty])
   \<and> Settings_getattr
        (Settings_at [''__pynamodb_override_settings__'' \<mapsto> Map.empty]
           \<lparr>override_module = Some ''__pynamodb_override_settings__''\<rparr>)
        ''session_cls''
     = Inr PyNone"
  by (simp add: Settings_init_runs [OF files_world_with] resolve_default_path
        legacy_names_def hasattr_def warning_text_def Settings_getattr_override
        DEFAULT_SETTINGS_def key_names)

theorem C6_obsolete_key_warns_and_is_served_witness:
  "\<exists>c mods'. Settings_init legacy_names
       (world_with (Runs (binds [''session_cls'' \<mapsto> PyStr ''requests''])))
       Map.empty Falsy = (Inr c, mods')
     \<and> ''The `session_cls` option is no longer supported'' \<in> set (warned c)
     \<and> Settings_getattr (Settings_at mods' (new_object c)) ''session_cls''
         = Inr (PyStr ''requests'')
     \<and> Settings_getattr (Settings_at mods' (new_object c)) ''region''
         = Inr (PyStr ''us-east-1'')"
proof -
  let ?ns = "[''session_cls'' \<mapsto> PyStr ''requests'']"
  let ?w = "world_with (Runs (binds ?ns))"
  have f: "files ?w (resolve_settings_path ?w Falsy) = Some (Runs (binds ?ns))"
    by (rule files_world_with)
  have n: "binds ?ns (namespace_of Map.empty ''__pynamodb_override_settings__'') = ?ns"
    by simp
  have k: "''session_cls'' \<in> set legacy_names" by (simp add: legacy_names_def)
  have v: "?ns ''session_cls'' = Some (PyStr ''requests'')" by simp
  have r: "Settings_getattr \<lparr>override_settings = Some (?ns(''session_cls'' := None))\<rparr> ''region''
             = Inr (PyStr ''us-east-1'')"
    by (simp add: Settings_getattr_override DEFAULT_SETTINGS_def key_names)
  from C6_obsolete_key_warns_and_is_served [OF f n k v]
  obtain c mods' where c: "Settings_init legacy_names ?w Map.empty Falsy = (Inr c, mods')"
      "warning_text ''session_cls'' \<in> set (warned c)"
      "Settings_getattr (Settings_at mods' (new_object c)) ''session_cls''
         = Inr (PyStr ''requests'')"
      "\<forall>key. key \<noteq> ''session_cls'' \<longrightarrow>
         Settings_getattr (Settings_at mods' (new_object c)) key
           = Settings_getattr \<lparr>override_settings = Some (?ns(''session_cls'' := None))\<rparr> key"
    by blast
  from c(4) r have "Settings_getattr (Settings_at mods' (new_object c)) ''region''
      = Inr (PyStr ''us-east-1'')"
    by simp
  with c(1,2,3) show ?thesis by (auto simp: warning_text_def)
qed

text \<open>
  C7. When the override file loads, construction returns an instance, and the warnings
  it emits are one per obsolete name that the loaded namespace has: each such name is
  warned about exactly once, no other warning is emitted. The obsolete names are a set,
  so their list has no repetition.
\<close>

theorem C7_one_warning_per_obsolete_key:
  assumes "files w (resolve_settings_path w settings_path) = Some (Runs program)"
      and "program (namespace_of mods ''__pynamodb_override_settings__'') = ns"
      and "distinct OBSOLETE"
  shows "\<exists>c mods'. Settings_init OBSOLETE w mods settings_path = (Inr c, mods')
           \<and> mods' ''__pynamodb_override_settings__'' = Some ns
           \<and> set (warned c) = warning_text ` {k \<in> set OBSOLETE. hasattr ns k}
           \<and> (\<forall>k. count_list (warned c) (warning_text k)
                    = (if k \<in> set OBSOLETE \<and> hasattr ns k then 1 else 0))
           \<and> length (warned c) = card {k \<in> set OBSOLETE. hasattr ns k}"
proof -
  let ?present = "filter (hasattr ns) OBSOLETE"
  have d: "distinct ?present" using assms(3) by simp
  have "card (set ?present) = length ?present"
    using d by (rule distinct_card)
  moreover have "set ?present = {k \<in> set OBSOLETE. hasattr ns k}" by auto
  ultimately have "length (map warning_text ?present) = card {k \<in> set OBSOLETE. hasattr ns k}"
    by simp
  moreover have "count_list (map warning_text ?present) (warning_text k)
                   = (if k \<in> set OBSOLETE \<and> hasattr ns k then 1 else 0)" for k
    using assms(3) by (simp add: count_list_map_inj inj_warning_text count_list_filter_distinct)
  ultimately show ?thesis
    using assms(2)
    by (simp add: Settings_init_runs [OF assms(1)] warn_obsolete_filter del: length_map)
qed

theorem C7_one_warning_per_obsolete_key_witness:
  "distinct legacy_names
   \<and> (\<exists>c mods'. Settings_init legacy_names
             (world_with (Runs (binds [''session_cls'' \<mapsto> PyStr ''requests'',
                                       ''region'' \<mapsto> PyStr ''eu-west-1''])))
             Map.empty Falsy = (Inr c, mods')
        \<and> count_list (warned c) ''The `session_cls` option is no longer supported'' = 1
        \<and> count_list (warned c) ''The `request_timeout_seconds` option is no longer supported'' = 0
        \<and> length (warned c) = 1)"
proof -
  let ?ns = "[''session_cls'' \<mapsto> PyStr ''requests'', ''region'' \<mapsto> PyStr ''eu-west-1'']"
  let ?w = "world_with (Runs (binds ?ns))"
  have f: "files ?w (resolve_settings_path ?w Falsy) = Some (Runs (binds ?ns))"
    by (rule files_world_with)
  have n: "binds ?ns (namespace_of Map.empty ''__pynamodb_override_settings__'') = ?ns"
    by simp
  have d: "distinct legacy_names" by (simp add: legacy_names_def)
  have card: "card {k \<in> set legacy_names. hasattr ?ns k} = 1"
  proof -
    have "{k \<in> set legacy_names. hasattr ?ns k} = {''session_cls''}"
      by (auto simp: legacy_names_def hasattr_def)
    then show ?thesis by simp
  qed
  from C7_one_warning_per_obsolete_key [OF f n d]
  obtain c mods' where c: "Settings_init legacy_names ?w Map.empty Falsy = (Inr c, mods')"
      "\<forall>k. count_list (warned c) (warning_text k)
             = (if k \<in> set legacy_names \<and> hasattr ?ns k then 1 else 0)"
      "length (warned c) = card {k \<in> set legacy_names. hasattr ?ns k}"
    by blast
  from c(2) have "count_list (warned c) (warning_text ''session_cls'') = 1"
    by (simp add: legacy_names_def hasattr_def)
  moreover from c(2) have "count_list (warned c) (warning_text ''request_timeout_seconds'') = 0"
    by (simp add: legacy_names_def hasattr_def)
  ultimately show ?thesis using d c(1,3) card by (auto simp: warning_text_def)
qed

text \<open>
  C8. When the resolved path is not an existing file, construction returns an instance
  without override source and leaves the table of modules alone; from then on, whatever
  is loaded later, the accessor answers every key of that instance from the default table
  (\<open>None\<close> for a key it lacks); and the two records logged are at level \<open>INFO\<close>.
\<close>

theorem C8_missing_file_falls_back:
  assumes "\<not> isfile w (resolve_settings_path w settings_path)"
  shows "\<exists>c. Settings_init OBSOLETE w mods settings_path = (Inr c, mods)
           \<and> override_module (new_object c) = None
           \<and> (\<forall>later key. Settings_getattr (Settings_at later (new_object c)) key
                     = (case DEFAULT_SETTINGS key of None \<Rightarrow> Inr PyNone | Some v \<Rightarrow> Inr v))
           \<and> warned c = []
           \<and> logged c = [(INFO, ''Override settings for pynamo not available ''
                                  @ resolve_settings_path w settings_path),
                          (INFO, ''Using Default settings value'')]"
proof -
  from assms have "files w (resolve_settings_path w settings_path) = None"
    by (simp add: isfile_def)
  then show ?thesis
    by (simp add: Settings_init_missing Settings_getattr_no_override)
qed

theorem C8_missing_file_falls_back_witness:
  "\<not> isfile bare_world (resolve_settings_path bare_world Falsy)
   \<and> (\<exists>c. Settings_init legacy_names bare_world Map.empty Falsy = (Inr c, Map.empty)
        \<and> override_module (new_object c) = None
        \<and> Settings_getattr
             (Settings_at [''__pynamodb_override_settings__'' \<mapsto> [''region'' \<mapsto> PyStr ''eu-west-1'']]
                (new_object c)) ''region''
            = Inr (PyStr ''us-east-1'')
        \<and> Settings_getattr (Settings_at Map.empty (new_object c)) ''session_cls'' = Inr PyNone
        \<and> logged c = [(INFO, ''Override settings for pynamo not available /etc/pynamodb/global_default_settings.py''),
                       (INFO, ''Using Default settings value'')])"
proof -
  have n: "\<not> isfile bare_world (resolve_settings_path bare_world Falsy)"
    by (simp add: isfile_def files_bare_world)
  from C8_missing_file_falls_back [OF n, of legacy_names Map.empty]
  obtain c where c: "Settings_init legacy_names bare_world Map.empty Falsy = (Inr c, Map.empty)"
      "override_module (new_object c) = None"
      "\<forall>later key. Settings_getattr (Settings_at later (new_object c)) key
                     = (case DEFAULT_SETTINGS key of None \<Rightarrow> Inr PyNone | Some v \<Rightarrow> Inr v)"
      "logged c = [(INFO, ''Override settings for pynamo not available ''
                                  @ resolve_settings_path bare_world Falsy),
                          (INFO, ''Using Default settings value'')]"
    by blast
  from c(3) have "Settings_getattr
             (Settings_at [''__pynamodb_override_settings__'' \<mapsto> [''region'' \<mapsto> PyStr ''eu-west-1'']]
                (new_object c)) ''region''
            = Inr (PyStr ''us-east-1'')"
    "Settings_getattr (Settings_at Map.empty (new_object c)) ''session_cls'' = Inr PyNone"
    by (simp_all add: DEFAULT_SETTINGS_def key_names)
  with c(1,2,4) n show ?thesis
    by (auto simp: resolve_default_path)
qed

text \<open>
  C10. The constructor examines one path, and what it returns is settled by the file at
  that path alone. For an argument that is true in a condition (a non-empty string) the
  path is the argument: the environment and every other file, the one at the fixed
  default path included, play no part. For an argument that is false (\<^verbatim>\<open>None\<close>, the empty
  string, any other false object) the path is the value of \<open>PYNAMODB_CONFIG\<close>, or the
  fixed default path when the variable is unset.
\<close>

theorem C10_explicit_path_wins:
  assumes "path = (if truthy settings_path then path_of settings_path
                   else (case environ w ''PYNAMODB_CONFIG'' of
                           Some v \<Rightarrow> v
                         | None \<Rightarrow> ''/etc/pynamodb/global_default_settings.py''))"
  shows "(files w path = None \<longrightarrow>
            Settings_init OBSOLETE w mods settings_path
              = (Inr \<lparr>new_object = \<lparr>override_module = None\<rparr>,
                      warned = [],
                      logged = [(INFO, ''Override settings for pynamo not available '' @ path),
                                (INFO, ''Using Default settings value'')]\<rparr>,
                 mods))
       \<and> (\<forall>program. files w path = Some (Runs program) \<longrightarrow>
            Settings_init OBSOLETE w mods settings_path
              = (Inr \<lparr>new_object = \<lparr>override_module = Some ''__pynamodb_override_settings__''\<rparr>,
                      warned = warn_obsolete OBSOLETE
                                 (program (namespace_of mods ''__pynamodb_override_settings__'')),
                      logged = [(INFO, ''Override settings for pynamo available '' @ path)]\<rparr>,
                 mods(''__pynamodb_override_settings__''
                        \<mapsto> program (namespace_of mods ''__pynamodb_override_settings__''))))
       \<and> (\<forall>program. files w path = Some (Breaks program) \<longrightarrow>
            fst (Settings_init OBSOLETE w mods settings_path) = Inl LoadError)
       \<and> (truthy settings_path \<and> files w' path = files w path \<longrightarrow>
            Settings_init OBSOLETE w' mods settings_path
              = Settings_init OBSOLETE w mods settings_path)
       \<and> (\<not> truthy settings_path
            \<and> environ w' ''PYNAMODB_CONFIG'' = environ w ''PYNAMODB_CONFIG''
            \<and> files w' path = files w path \<longrightarrow>
            Settings_init OBSOLETE w' mods settings_path
              = Settings_init OBSOLETE w mods settings_path)"
proof -
  have p: "resolve_settings_path w settings_path = path"
    using assms by (simp add: resolve_settings_path_def getenv_def split: option.splits)
  have same: "Settings_init OBSOLETE w' mods settings_path
                = Settings_init OBSOLETE w mods settings_path"
    if "resolve_settings_path w' settings_path = path" "files w' path = files w path"
    using that p by (simp add: Settings_init_def isfile_def load_module_def)
  have "resolve_settings_path w' settings_path = path" if "truthy settings_path"
    using that assms by (simp add: resolve_settings_path_def)
  moreover have "resolve_settings_path w' settings_path = path"
    if "\<not> truthy settings_path"
       "environ w' ''PYNAMODB_CONFIG'' = environ w ''PYNAMODB_CONFIG''"
    using that assms by (simp add: resolve_settings_path_def getenv_def)
  ultimately show ?thesis
    using same
    by (auto simp: Settings_init_missing Settings_init_runs Settings_init_breaks p [symmetric])
qed

theorem C10_explicit_path_wins_witness:
  "Settings_init legacy_names two_files Map.empty (Path ''/tmp/settings.py'')
     = (Inr \<lparr>new_object = \<lparr>override_module = Some ''__pynamodb_override_settings__''\<rparr>,
             warned = [],
             logged = [(INFO, ''Override settings for pynamo available /tmp/settings.py'')]\<rparr>,
        [''__pynamodb_override_settings__'' \<mapsto> [''region'' \<mapsto> PyStr ''ap-south-1'']])
   \<and> Settings_init legacy_names two_files Map.empty (Path [])
     = (Inr \<lparr>new_object = \<lparr>override_module = Some ''__pynamodb_override_settings__''\<rparr>,
             warned = [],
             logged = [(INFO, ''Override settings for pynamo available /srv/pynamodb.py'')]\<rparr>,
        [''__pynamodb_override_settings__'' \<mapsto> [''region'' \<mapsto> PyStr ''eu-west-1'']])
   \<and> Settings_init legacy_names two_files Map.empty Falsy
     = Settings_init legacy_names two_files Map.empty (Path [])
   \<and> Settings_init legacy_names bare_world Map.empty Falsy
     = (Inr \<lparr>new_object = \<lparr>override_module = None\<rparr>,
             warned = [],
             logged = [(INFO, ''Override settings for pynamo not available /etc/pynamodb/global_default_settings.py''),
                       (INFO, ''Using Default settings value'')]\<rparr>,
        Map.empty)"
proof -
  let ?tmp = "''/tmp/settings.py''" and ?srv = "''/srv/pynamodb.py''"
  let ?etc = "''/etc/pynamodb/global_default_settings.py''"
  have w: "warn_obsolete legacy_names [''region'' \<mapsto> v] = []" for v
    by (simp add: legacy_names_def hasattr_def)
  have 1: "?tmp = (if truthy (Path ?tmp) then path_of (Path ?tmp)
                   else (case environ two_files ''PYNAMODB_CONFIG'' of
                           Some v \<Rightarrow> v | None \<Rightarrow> ?etc))"
    by simp
  have f1: "files two_files ?tmp = Some (Runs (binds [''region'' \<mapsto> PyStr ''ap-south-1'']))"
    by (simp add: two_files_def)
  from C10_explicit_path_wins [OF 1, of legacy_names Map.empty] f1
  have a: "Settings_init legacy_names two_files Map.empty (Path ?tmp)
     = (Inr \<lparr>new_object = \<lparr>override_module = Some ''__pynamodb_override_settings__''\<rparr>,
             warned = [],
             logged = [(INFO, ''Override settings for pynamo available /tmp/settings.py'')]\<rparr>,
        [''__pynamodb_override_settings__'' \<mapsto> [''region'' \<mapsto> PyStr ''ap-south-1'']])"
    by (simp add: w)
  have 2: "?srv = (if truthy p then path_of p
                   else (case environ two_files ''PYNAMODB_CONFIG'' of
                           Some v \<Rightarrow> v | None \<Rightarrow> ?etc))"
    if "\<not> truthy p" for p
    using that by (simp add: two_files_def)
  have f2: "files two_files ?srv = Some (Runs (binds [''region'' \<mapsto> PyStr ''eu-west-1'']))"
    by (simp add: two_files_def)
  from C10_explicit_path_wins [OF 2 [of "Path []"], of legacy_names Map.empty] f2
  have b: "Settings_init legacy_names two_files Map.empty (Path [])
     = (Inr \<lparr>new_object = \<lparr>override_module = Some ''__pynamodb_override_settings__''\<rparr>,
             warned = [],
             logged = [(INFO, ''Override settings for pynamo available /srv/pynamodb.py'')]\<rparr>,
        [''__pynamodb_override_settings__'' \<mapsto> [''region'' \<mapsto> PyStr ''eu-west-1'']])"
    by (simp add: w)
  from C10_explicit_path_wins [OF 2 [of Falsy], of legacy_names Map.empty] f2
  have "Settings_init legacy_names two_files Map.empty Falsy
     = (Inr \<lparr>new_object = \<lparr>override_module = Some ''__pynamodb_override_settings__''\<rparr>,
             warned = [],
             logged = [(INFO, ''Override settings for pynamo available /srv/pynamodb.py'')]\<rparr>,
        [''__pynamodb_override_settings__'' \<mapsto> [''region'' \<mapsto> PyStr ''eu-west-1'']])"
    by (simp add: w)
  with b have c: "Settings_init legacy_names two_files Map.empty Falsy
     = Settings_init legacy_names two_files Map.empty (Path [])"
    by simp
  have 3: "?etc = (if truthy Falsy then path_of Falsy
                   else (case environ bare_world ''PYNAMODB_CONFIG'' of
                           Some v \<Rightarrow> v | None \<Rightarrow> ?etc))"
    by (simp add: bare_world_def)
  have f3: "files bare_world ?etc = None" by (simp add: bare_world_def)
  from C10_explicit_path_wins [OF 3, of legacy_names Map.empty] f3
  have d: "Settings_init legacy_names bare_world Map.empty Falsy
     = (Inr \<lparr>new_object = \<lparr>override_module = None\<rparr>,
             warned = [],
             logged = [(INFO, ''Override settings for pynamo not available /etc/pynamodb/global_default_settings.py''),
                       (INFO, ''Using Default settings value'')]\<rparr>,
        Map.empty)"
    by simp
  from a b c d show ?thesis by blast
qed

section \<open>The singleton holder: replacement and immutability\<close>

lemma construct_heap:
  "construct obs w p st = (res, st') \<Longrightarrow>
   \<exists>ext. heap st' = heap st @ ext \<and> settings_slot st' = settings_slot st
         \<and> sessions st' = sessions st"
  by (auto simp: construct_def split: sum.splits prod.splits)

lemma SettingsMeta_getattr_heap:
  "SettingsMeta_getattr obs w key st = (res, st') \<Longrightarrow> \<exists>ext. heap st' = heap st @ ext"
  by (auto simp: SettingsMeta_getattr_def split: if_splits option.splits prod.splits sum.splits
           dest!: construct_heap)

lemma SettingsMeta_setattr_heap:
  "SettingsMeta_setattr key val st = Some (res, st') \<Longrightarrow> heap st' = heap st"
  by (auto simp: SettingsMeta_setattr_def split: if_splits pyobj.splits)

lemma perform_heap:
  "\<exists>ext. heap (snd (perform obs w x st)) = heap st @ ext"
proof (cases x)
  case (Get self key)
  then show ?thesis by (simp split: sum.splits)
next
  case Current
  obtain res st' where r: "SettingsMeta_getattr obs w DEFAULT st = (res, st')"
    by (cases "SettingsMeta_getattr obs w DEFAULT st")
  from SettingsMeta_getattr_heap [OF r] Current r show ?thesis
    by (auto split: sum.splits)
next
  case (Replace val)
  then show ?thesis
    by (auto simp: SettingsMeta_setattr_def split: pyobj.splits)
next
  case (Get_session self)
  then show ?thesis by (simp add: Settings_get_session_def)
next
  case (Construct settings_path)
  obtain res st' where r: "construct obs w settings_path st = (res, st')"
    by (cases "construct obs w settings_path st")
  from construct_heap [OF r] Construct r show ?thesis
    by (auto split: sum.splits)
qed

lemma perform_all_heap:
  "\<exists>ext. heap (perform_all obs w xs st) = heap st @ ext"
proof (induction xs arbitrary: st)
  case Nil
  show ?case by simp
next
  case (Cons x xs)
  from perform_heap [of obs w x st] obtain e1
    where e1: "heap (snd (perform obs w x st)) = heap st @ e1" by blast
  from Cons.IH [of "snd (perform obs w x st)"] obtain e2
    where "heap (perform_all obs w xs (snd (perform obs w x st)))
             = heap (snd (perform obs w x st)) @ e2" by blast
  with e1 show ?case by simp
qed

text \<open>
  C5. Assigning to \<^verbatim>\<open>Settings.default\<close> a value that is not a \<^verbatim>\<open>Settings\<close> instance raises
  \<open>ValueError\<close> at once, and the state of the module, the slot included, is what it was.
\<close>

theorem C5_replace_rejects_non_instance:
  "SettingsMeta_setattr DEFAULT (Value x) st = Some (Inl (ValueError must_be_instance), st)
   \<and> perform obs w (Replace (Value x)) st = (Raises (ValueError must_be_instance), st)"
  by (simp add: SettingsMeta_setattr_def)

theorem C5_replace_rejects_non_instance_witness:
  "perform legacy_names bare_world (Replace (Value (PyStr ''eu-west-1'')))
     \<lparr>heap = [\<lparr>override_module = None\<rparr>], settings_slot = Some 0,
      constructor_runs = 1, sessions = 0, sys_modules = Map.empty\<rparr>
   = (Raises (ValueError [CHR 0x27, CHR ''d'', CHR ''e'', CHR ''f'', CHR ''a'', CHR ''u'', CHR ''l'',
                          CHR ''t'', CHR 0x27, CHR '' '', CHR ''m'', CHR ''u'', CHR ''s'', CHR ''t'',
                          CHR '' '', CHR ''b'', CHR ''e'', CHR '' '', CHR ''a'', CHR ''n'', CHR '' '',
                          CHR ''i'', CHR ''n'', CHR ''s'', CHR ''t'', CHR ''a'', CHR ''n'', CHR ''c'',
                          CHR ''e'', CHR '' '', CHR ''o'', CHR ''f'', CHR '' '', CHR ''S'', CHR ''e'',
                          CHR ''t'', CHR ''t'', CHR ''i'', CHR ''n'', CHR ''g'', CHR ''s'']),
      \<lparr>heap = [\<lparr>override_module = None\<rparr>], settings_slot = Some 0,
       constructor_runs = 1, sessions = 0, sys_modules = Map.empty\<rparr>)"
  using C5_replace_rejects_non_instance [of "PyStr ''eu-west-1''"
      "\<lparr>heap = [\<lparr>override_module = None\<rparr>], settings_slot = Some 0,
        constructor_runs = 1, sessions = 0, sys_modules = Map.empty\<rparr>" legacy_names bare_world]
  by (simp add: must_be_instance_def DEFAULT_def)

text \<open>
  C9. Whatever sequence of lookups, \<^verbatim>\<open>Settings.default\<close> reads, replacements,
  \<^verbatim>\<open>get_session\<close> calls and constructions of further instances is applied, every instance
  that exists stays where it is and its attribute \<^verbatim>\<open>_override_settings\<close> refers to what it
  referred to before: the module object, or nothing. A lookup leaves the whole state of
  the module, the table of modules included, as it was.
\<close>

theorem C9_override_reference_is_fixed:
  "(self < length (heap st) \<longrightarrow>
      self < length (heap (perform_all obs w xs st))
      \<and> override_module (heap (perform_all obs w xs st) ! self)
          = override_module (heap st ! self))
   \<and> snd (perform obs w (Get self key) st) = st"
proof -
  from perform_all_heap [of obs w xs st] obtain ext
    where "heap (perform_all obs w xs st) = heap st @ ext" by blast
  then have "self < length (heap st) \<Longrightarrow>
      self < length (heap (perform_all obs w xs st))
      \<and> heap (perform_all obs w xs st) ! self = heap st ! self"
    by (simp add: nth_append)
  moreover have "snd (perform obs w (Get self key) st) = st"
    by (simp split: sum.splits)
  ultimately show ?thesis by simp
qed

theorem C9_override_reference_is_fixed_witness:
  "override_module
     (heap (perform_all legacy_names two_files
              [Get 0 ''region'', Current, Replace (Instance 0), Get_session 0,
               Replace (Value PyNone), Construct (Path ''/tmp/settings.py''), Current]
              \<lparr>heap = [\<lparr>override_module = Some ''__pynamodb_override_settings__''\<rparr>],
               settings_slot = None, constructor_runs = 1, sessions = 0,
               sys_modules = [''__pynamodb_override_settings__''
                                \<mapsto> [''region'' \<mapsto> PyStr ''eu-west-1'']]\<rparr>) ! 0)
   = Some ''__pynamodb_override_settings__''"
proof -
  let ?st = "\<lparr>heap = [\<lparr>override_module = Some ''__pynamodb_override_settings__''\<rparr>],
               settings_slot = None, constructor_runs = 1, sessions = 0,
               sys_modules = [''__pynamodb_override_settings__''
                                \<mapsto> [''region'' \<mapsto> PyStr ''eu-west-1'']]\<rparr>"
  let ?xs = "[Get 0 ''region'', Current, Replace (Instance 0), Get_session 0,
              Replace (Value PyNone), Construct (Path ''/tmp/settings.py''), Current]"
  have h: "0 < length (heap ?st)" by simp
  from C9_override_reference_is_fixed [of 0 ?st legacy_names two_files ?xs] h
  have "override_module (heap (perform_all legacy_names two_files ?xs ?st) ! 0)
          = override_module (heap ?st ! 0)"
    by blast
  also have "\<dots> = Some ''__pynamodb_override_settings__''" by simp
  finally show ?thesis .
qed

text \<open>
  The reference stays, the module it refers to does not: every load executes its file in
  the one module object, so an instance constructed earlier answers from what a later
  load has bound, and also from what a later load bound before it raised.
\<close>

lemma later_load_reaches_earlier_instance:
  "perform_all legacy_names two_files
     [Construct (Path ''/srv/pynamodb.py'')] SettingsMeta_init = st1 \<Longrightarrow>
   perform_all legacy_names two_files
     [Construct (Path ''/srv/pynamodb.py''), Construct (Path ''/tmp/settings.py'')]
     SettingsMeta_init = st2 \<Longrightarrow>
   fst (perform legacy_names two_files (Get 0 ''region'') st1) = Gives (PyStr ''eu-west-1'')
   \<and> fst (perform legacy_names two_files (Get 0 ''region'') st2) = Gives (PyStr ''ap-south-1'')
   \<and> heap st2 ! 0 = heap st1 ! 0"
  by (auto simp: SettingsMeta_init_def construct_def two_files_def Settings_init_def
        resolve_settings_path_def isfile_def load_module_def namespace_of_def binds_def
        Settings_at_def Settings_getattr_override)

lemma failed_load_reaches_earlier_instance:
  assumes "files w ''/a.py'' = Some (Runs (binds [''region'' \<mapsto> PyStr ''eu-west-1'']))"
      and "files w ''/b.py'' = Some (Breaks (binds [''region'' \<mapsto> PyStr ''ap-south-1'']))"
      and "perform_all obs w [Construct (Path ''/a.py''), Construct (Path ''/b.py'')]
             SettingsMeta_init = st"
  shows "fst (perform obs w (Get 0 ''region'') st) = Gives (PyStr ''ap-south-1'')
         \<and> length (heap st) = 1 \<and> constructor_runs st = 2"
  using assms
  by (auto simp: SettingsMeta_init_def construct_def Settings_init_def
        resolve_settings_path_def isfile_def load_module_def namespace_of_def binds_def
        Settings_at_def Settings_getattr_override)

section \<open>Concurrent first use\<close>

lemma filter_update_count:
  "i < length ts \<Longrightarrow>
   length (filter P (ts[i := x])) + (if P (ts ! i) then 1 else 0)
     = length (filter P ts) + (if P x then 1 else 0)"
proof (induction ts arbitrary: i)
  case Nil
  then show ?case by simp
next
  case (Cons a ts)
  then show ?case by (cases i) auto
qed

lemma others_outside:
  "length (filter P ts) \<le> 1 \<Longrightarrow> i < length ts \<Longrightarrow> P (ts ! i) \<Longrightarrow>
   list_all (\<lambda>t. t = x \<or> \<not> P t) (ts[i := x])"
proof (induction ts arbitrary: i)
  case Nil
  then show ?case by simp
next
  case (Cons a ts)
  show ?case
  proof (cases i)
    case 0
    with Cons.prems have "filter P ts = []" by simp
    then have "list_all (\<lambda>t. \<not> P t) ts" by (simp add: filter_empty_conv list_all_iff)
    with 0 show ?thesis by (simp add: list_all_iff)
  next
    case (Suc k)
    with Cons.prems have k: "k < length ts" "P (ts ! k)" by simp_all
    then have ne: "filter P ts \<noteq> []" by (auto simp: filter_empty_conv)
    with Cons.prems(1) have a: "\<not> P a" by (auto split: if_splits)
    with Cons.prems(1) have "length (filter P ts) \<le> 1" by simp
    from Cons.IH [OF this k] a Suc show ?thesis by simp
  qed
qed

lemma list_all_update:
  "list_all Q ts \<Longrightarrow> Q x \<Longrightarrow> list_all Q (ts[i := x])"
  by (metis (full_types) insertE list_all_iff set_update_subset_insert subsetD)

lemma list_all_nth: "list_all Q ts \<Longrightarrow> i < length ts \<Longrightarrow> Q (ts ! i)"
  by (simp add: list_all_length)

lemma list_all_weaken:
  "list_all Q ts \<Longrightarrow> list_all R ts \<Longrightarrow> (\<And>t. Q t \<Longrightarrow> R t \<Longrightarrow> S t) \<Longrightarrow> list_all S ts"
  by (simp add: list_all_iff)

lemma construct_returns:
  "Settings_init obs w (sys_modules st) Falsy = (Inr c, mods') \<Longrightarrow>
   construct obs w Falsy st = (Inr (length (heap st)), built st (new_object c) mods')"
  by (simp add: construct_def built_def)

lemma singleton_inv_callers:
  "singleton_inv st0 b (callers n st0)"
  by (simp add: singleton_inv_def callers_def list_all_iff)

lemma length_system_step [simp]:
  "length (threads (system_step obs w i sys)) = length (threads sys)"
  by (auto simp: system_step_def split: option.splits)

lemma built_simps [simp]:
  "settings_slot (built st0 s mods') = settings_slot st0"
  "heap (built st0 s mods') = heap st0 @ [s]"
  "constructor_runs (built st0 s mods') = Suc (constructor_runs st0)"
  "sys_modules (built st0 s mods') = mods'"
  "built st0 s mods' \<noteq> st0"
  "(built st0 s mods')\<lparr>settings_slot := x\<rparr> \<noteq> st0"
proof -
  show "built st0 s mods' \<noteq> st0"
  proof
    assume "built st0 s mods' = st0"
    then have "heap (built st0 s mods') = heap st0" by simp
    then show False by (simp add: built_def)
  qed
  show "(built st0 s mods')\<lparr>settings_slot := x\<rparr> \<noteq> st0"
  proof
    assume "(built st0 s mods')\<lparr>settings_slot := x\<rparr> = st0"
    then have "heap ((built st0 s mods')\<lparr>settings_slot := x\<rparr>) = heap st0" by simp
    then show False by (simp add: built_def)
  qed
qed (simp_all add: built_def)


lemma critical_holds_lock:
  assumes "length (filter in_critical ts) = (if locked then 1 else 0)"
      and "i < length ts" and "in_critical (ts ! i)"
  shows "locked" and "length (filter in_critical ts) \<le> 1"
proof -
  from assms(2,3) have "filter in_critical ts \<noteq> []" by (auto simp: filter_empty_conv)
  with assms(1) show "locked" by (auto split: if_splits)
  from assms(1) show "length (filter in_critical ts) \<le> 1" by (simp split: if_splits)
qed

lemma leaving_critical:
  assumes cnt: "length (filter in_critical ts) = (if locked then 1 else 0)"
      and i: "i < length ts" and p: "in_critical (ts ! i)"
      and all: "list_all Q ts" and x: "R x"
      and imp: "\<And>t. Q t \<Longrightarrow> \<not> in_critical t \<Longrightarrow> R t"
  shows "list_all R (ts[i := x])"
proof -
  from critical_holds_lock [OF cnt i p] have "length (filter in_critical ts) \<le> 1" by simp
  from others_outside [OF this i p, of x]
  have a: "list_all (\<lambda>t. t = x \<or> \<not> in_critical t) (ts[i := x])" .
  from all have "list_all (\<lambda>t. t = x \<or> Q t) ts" by (simp add: list_all_iff)
  then have b: "list_all (\<lambda>t. t = x \<or> Q t) (ts[i := x])"
    by (rule list_all_update) simp
  from a b show ?thesis
    by (rule list_all_weaken) (use x imp in auto)
qed

lemma singleton_inv_thread_step:
  assumes ctor: "Settings_init obs w (sys_modules st0) Falsy = (Inr c, mods')"
      and slot0: "settings_slot st0 = None"
      and inv: "singleton_inv st0 (built st0 (new_object c) mods') sys"
      and i: "i < length (threads sys)"
      and step: "thread_step obs w (threads sys ! i) (shared sys, lock_held sys)
                   = Some (p', st', locked')"
  shows "singleton_inv st0 (built st0 (new_object c) mods')
           \<lparr>shared = st', lock_held = locked', threads = (threads sys)[i := p']\<rparr>"
proof -
  let ?ts = "threads sys" and ?new = "length (heap st0)" and ?b = "built st0 (new_object c) mods'"
  from inv have cnt: "length (filter in_critical ?ts) = (if lock_held sys then 1 else 0)"
    by (simp add: singleton_inv_def)
  note cnt' = filter_update_count [OF i, of in_critical p']
  note lock = critical_holds_lock [OF cnt i]
  from inv consider
      (fresh) "shared sys = st0" "list_all fresh_ok ?ts"
    | (built) "shared sys = ?b" "lock_held sys" "list_all (built_ok ?new) ?ts"
    | (stored) "shared sys = ?b\<lparr>settings_slot := Some ?new\<rparr>"
               "list_all (stored_ok ?new) ?ts"
    by (auto simp: singleton_inv_def)
  then show ?thesis
  proof cases
    case fresh
    from fresh(2) i have ok: "fresh_ok (?ts ! i)" by (rule list_all_nth)
    show ?thesis
    proof (cases "?ts ! i")
      case Line_63_call
      with step fresh(1) have e: "p' = Line_63_store ?new" "st' = ?b" "locked' = lock_held sys"
        by (simp_all add: construct_returns [OF ctor])
      from Line_63_call lock have l: "lock_held sys" by simp
      from Line_63_call have "in_critical (?ts ! i)" by simp
      moreover have "built_ok ?new p'" using e(1) by simp
      moreover have "fresh_ok t \<Longrightarrow> \<not> in_critical t \<Longrightarrow> built_ok ?new t" for t
        by (cases t) simp_all
      ultimately have "list_all (built_ok ?new) (?ts[i := p'])"
        using fresh(2) by (intro leaving_critical [OF cnt i, where Q = fresh_ok])
      with cnt cnt' e l Line_63_call show ?thesis
        by (simp add: singleton_inv_def)
    qed (use step fresh ok cnt cnt' slot0 in
          \<open>auto simp: singleton_inv_def list_all_update split: if_splits\<close>)
  next
    case built
    from built(3) i have ok: "built_ok ?new (?ts ! i)" by (rule list_all_nth)
    show ?thesis
    proof (cases "?ts ! i")
      case (Line_63_store r)
      with step built(1) have e: "p' = Line_64"
          "st' = ?b\<lparr>settings_slot := Some r\<rparr>" "locked' = lock_held sys"
        by simp_all
      from ok Line_63_store have r: "r = ?new" by simp
      from Line_63_store have "in_critical (?ts ! i)" by simp
      moreover have "stored_ok ?new p'" using e(1) by simp
      moreover have "built_ok ?new t \<Longrightarrow> \<not> in_critical t \<Longrightarrow> stored_ok ?new t" for t
        by (cases t) simp_all
      ultimately have "list_all (stored_ok ?new) (?ts[i := p'])"
        using built(3) by (intro leaving_critical [OF cnt i, where Q = "built_ok ?new"])
      with cnt cnt' e r built(2) Line_63_store show ?thesis
        by (simp add: singleton_inv_def)
    qed (use step built ok cnt cnt' slot0 in
          \<open>auto simp: singleton_inv_def list_all_update split: if_splits\<close>)
  next
    case stored
    from stored(2) i have ok: "stored_ok ?new (?ts ! i)" by (rule list_all_nth)
    show ?thesis
    proof (cases "?ts ! i")
      case (Leave_with result)
      with step have e: "p' = Finished result" "st' = shared sys" "locked' = False"
        by simp_all
      from Leave_with lock have "lock_held sys" by simp
      with cnt cnt' e Leave_with have "length (filter in_critical (?ts[i := p'])) = 0"
        by simp
      moreover from ok Leave_with e stored(2) have "list_all (stored_ok ?new) (?ts[i := p'])"
        by (simp add: list_all_update)
      ultimately show ?thesis using e stored(1)
        by (simp add: singleton_inv_def)
    qed (use step stored ok cnt cnt' slot0 in
          \<open>auto simp: singleton_inv_def list_all_update split: if_splits option.splits\<close>)
  qed
qed


lemma singleton_inv_system_step:
  assumes "Settings_init obs w (sys_modules st0) Falsy = (Inr c, mods')" and "settings_slot st0 = None"
      and "singleton_inv st0 (built st0 (new_object c) mods') sys"
  shows "singleton_inv st0 (built st0 (new_object c) mods') (system_step obs w i sys)"
proof (cases "i < length (threads sys)")
  case False
  with assms(3) show ?thesis by (simp add: system_step_def)
next
  case True
  show ?thesis
  proof (cases "thread_step obs w (threads sys ! i) (shared sys, lock_held sys)")
    case None
    with assms(3) True show ?thesis by (simp add: system_step_def)
  next
    case (Some r)
    obtain p' st' locked' where r: "r = (p', st', locked')" by (cases r)
    from singleton_inv_thread_step [OF assms True Some [unfolded r]] Some r True
    show ?thesis by (simp add: system_step_def)
  qed
qed

lemma singleton_inv_run:
  assumes "Settings_init obs w (sys_modules st0) Falsy = (Inr c, mods')" and "settings_slot st0 = None"
  shows "singleton_inv st0 (built st0 (new_object c) mods') sys \<Longrightarrow>
         singleton_inv st0 (built st0 (new_object c) mods') (run obs w schedule sys)"
proof (induction schedule arbitrary: sys)
  case Nil
  then show ?case by simp
next
  case (Cons i schedule)
  from Cons.prems have "singleton_inv st0 (built st0 (new_object c) mods') (system_step obs w i sys)"
    by (rule singleton_inv_system_step [OF assms])
  then show ?case by (simp add: Cons.IH)
qed

lemma length_run [simp]: "length (threads (run obs w schedule sys)) = length (threads sys)"
  by (induction schedule arbitrary: sys) simp_all

lemma run_append: "run obs w (xs @ ys) sys = run obs w ys (run obs w xs sys)"
  by (induction xs arbitrary: sys) simp_all

text \<open>What the invariant says about the callers and the counters.\<close>

lemma singleton_inv_runs:
  "singleton_inv st0 (built st0 s mods') sys \<Longrightarrow>
   constructor_runs (shared sys) \<le> Suc (constructor_runs st0)"
  by (auto simp: singleton_inv_def)

lemma singleton_inv_result:
  assumes "singleton_inv st0 b sys" and "i < length (threads sys)"
      and "threads sys ! i = Finished result"
  shows "result = Inr (Some (length (heap st0)))"
    and "shared sys = b\<lparr>settings_slot := Some (length (heap st0))\<rparr>"
proof -
  from assms(1) consider
      "list_all fresh_ok (threads sys)"
    | "list_all (built_ok (length (heap st0))) (threads sys)"
    | "shared sys = b\<lparr>settings_slot := Some (length (heap st0))\<rparr>"
      "list_all (stored_ok (length (heap st0))) (threads sys)"
    by (auto simp: singleton_inv_def)
  then have "result = Inr (Some (length (heap st0)))
     \<and> shared sys = b\<lparr>settings_slot := Some (length (heap st0))\<rparr>"
  proof cases
    case 1
    from list_all_nth [OF 1 assms(2)] assms(3) show ?thesis by simp
  next
    case 2
    from list_all_nth [OF 2 assms(2)] assms(3) show ?thesis by simp
  next
    case 3
    from list_all_nth [OF 3(2) assms(2)] assms(3) 3(1) show ?thesis by simp
  qed
  then show "result = Inr (Some (length (heap st0)))"
    and "shared sys = b\<lparr>settings_slot := Some (length (heap st0))\<rparr>"
    by simp_all
qed

lemma has_finished_iff: "has_finished p \<longleftrightarrow> (\<exists>result. p = Finished result)"
  by (cases p) simp_all

lemma finished_outside: "has_finished p \<Longrightarrow> \<not> in_critical p"
  by (cases p) simp_all

lemma all_finished_no_critical:
  "all_finished sys \<Longrightarrow> filter in_critical (threads sys) = []"
  by (auto simp: all_finished_def filter_empty_conv list_all_iff dest: finished_outside)

lemma singleton_inv_all_finished:
  assumes "singleton_inv st0 b sys" and "all_finished sys" and "0 < length (threads sys)"
  shows "shared sys = b\<lparr>settings_slot := Some (length (heap st0))\<rparr>"
    and "\<not> lock_held sys"
proof -
  from assms(2) have "list_all has_finished (threads sys)" by (simp add: all_finished_def)
  from list_all_nth [OF this assms(3)] obtain result
    where "threads sys ! 0 = Finished result"
    by (auto simp: has_finished_iff)
  from singleton_inv_result(2) [OF assms(1,3) this]
  show "shared sys = b\<lparr>settings_slot := Some (length (heap st0))\<rparr>" .
  from all_finished_no_critical [OF assms(2)] assms(1) show "\<not> lock_held sys"
    by (auto simp: singleton_inv_def split: if_splits)
qed

text \<open>Progress: every step of a thread uses up some of the steps it has left.\<close>

lemma thread_step_decreases:
  "thread_step obs w p (st, locked) = Some (p', st', locked') \<Longrightarrow> steps_left p' < steps_left p"
  by (cases p) (auto split: option.splits if_splits prod.splits sum.splits)

lemma work_left_update:
  assumes "i < length ts" and "steps_left p' < steps_left (ts ! i)"
  shows "sum_list (map steps_left (ts[i := p'])) < sum_list (map steps_left ts)"
  using assms
proof (induction ts arbitrary: i)
  case Nil
  then show ?case by simp
next
  case (Cons a ts)
  then show ?case by (cases i) auto
qed

lemma system_step_progress:
  assumes "i < length (threads sys)"
      and "thread_step obs w (threads sys ! i) (shared sys, lock_held sys) \<noteq> None"
  shows "work_left (system_step obs w i sys) < work_left sys"
proof -
  from assms(2) obtain p' st' locked'
    where s: "thread_step obs w (threads sys ! i) (shared sys, lock_held sys)
                = Some (p', st', locked')"
    by (cases "thread_step obs w (threads sys ! i) (shared sys, lock_held sys)") auto
  from thread_step_decreases [OF s] have "steps_left p' < steps_left (threads sys ! i)" .
  from work_left_update [OF assms(1) this] s assms(1) show ?thesis
    by (simp add: system_step_def work_left_def)
qed

lemma critical_can_move:
  "in_critical p \<Longrightarrow> thread_step obs w p (st, locked) \<noteq> None"
  by (cases p) (auto split: prod.splits sum.splits)

lemma outside_can_move:
  "\<not> in_critical p \<Longrightarrow> (\<forall>result. p \<noteq> Finished result) \<Longrightarrow>
   thread_step obs w p (st, False) \<noteq> None"
  by (cases p) (auto split: option.splits)

lemma singleton_inv_progress:
  assumes inv: "singleton_inv st0 b sys" and unfinished: "\<not> all_finished sys"
  shows "\<exists>i<length (threads sys). work_left (system_step obs w i sys) < work_left sys"
proof (cases "lock_held sys")
  case True
  with inv have "filter in_critical (threads sys) \<noteq> []"
    by (auto simp: singleton_inv_def)
  then obtain p where "p \<in> set (threads sys)" "in_critical p"
    by (auto simp: filter_empty_conv)
  then obtain i where i: "i < length (threads sys)" "in_critical (threads sys ! i)"
    by (auto simp: in_set_conv_nth)
  from critical_can_move [OF i(2)] system_step_progress [OF i(1)] i(1) show ?thesis
    by blast
next
  case False
  with inv have none: "filter in_critical (threads sys) = []"
    by (auto simp: singleton_inv_def)
  from unfinished obtain i where i: "i < length (threads sys)"
      "\<forall>result. threads sys ! i \<noteq> Finished result"
    by (auto simp: all_finished_def list_all_length has_finished_iff)
  from none i(1) have "\<not> in_critical (threads sys ! i)"
    by (auto simp: filter_empty_conv)
  from outside_can_move [OF this i(2), of obs w "shared sys"] False
    system_step_progress [OF i(1), of obs w] i(1)
  show ?thesis by auto
qed

lemma singleton_inv_completes:
  assumes ctor: "Settings_init obs w (sys_modules st0) Falsy = (Inr c, mods')" and slot0: "settings_slot st0 = None"
  shows "singleton_inv st0 (built st0 (new_object c) mods') sys \<Longrightarrow>
         \<exists>more. all_finished (run obs w more sys)"
proof (induction "work_left sys" arbitrary: sys rule: less_induct)
  case less
  show ?case
  proof (cases "all_finished sys")
    case True
    then have "all_finished (run obs w [] sys)" by simp
    then show ?thesis by blast
  next
    case False
    from singleton_inv_progress [OF less.prems False, of obs w] obtain i
      where i: "work_left (system_step obs w i sys) < work_left sys" by blast
    from singleton_inv_system_step [OF ctor slot0 less.prems]
    have "singleton_inv st0 (built st0 (new_object c) mods') (system_step obs w i sys)" .
    from less.hyps [OF i this] obtain more
      where "all_finished (run obs w more (system_step obs w i sys))" by blast
    then have "all_finished (run obs w (i # more) sys)" by simp
    then show ?thesis by blast
  qed
qed

text \<open>
  C4 (as amended). Provided the constructor returns, for every number \<open>n\<close> of callers
  that evaluate \<^verbatim>\<open>Settings.default\<close> while the slot is empty and for every interleaving of
  their steps: the constructor is entered at most once; every caller that has returned
  holds the reference to the one new instance, which by then has been constructed exactly
  once; when all have returned the slot holds that reference and the lock is free. No
  interleaving gets stuck: as long as a caller has not returned some thread can move, each
  move uses up one of the at most eight steps a thread has, and every interleaving can be
  continued until all callers have returned.
\<close>

theorem C4_one_instance_for_all_callers:
  assumes "Settings_init obs w (sys_modules st) Falsy = (Inr c, mods')"
      and "settings_slot st = None"
  shows "length (threads (run obs w schedule (callers n st))) = n
   \<and> constructor_runs (shared (run obs w schedule (callers n st))) \<le> Suc (constructor_runs st)
   \<and> (\<forall>i<n. \<forall>result.
         threads (run obs w schedule (callers n st)) ! i = Finished result
         \<longrightarrow> result = Inr (Some (length (heap st)))
             \<and> heap (shared (run obs w schedule (callers n st))) = heap st @ [new_object c]
             \<and> constructor_runs (shared (run obs w schedule (callers n st)))
                 = Suc (constructor_runs st))
   \<and> (all_finished (run obs w schedule (callers n st)) \<and> 0 < n
        \<longrightarrow> settings_slot (shared (run obs w schedule (callers n st))) = Some (length (heap st))
            \<and> \<not> lock_held (run obs w schedule (callers n st)))
   \<and> (\<not> all_finished (run obs w schedule (callers n st))
        \<longrightarrow> (\<exists>i<n. work_left (system_step obs w i (run obs w schedule (callers n st)))
                      < work_left (run obs w schedule (callers n st))))
   \<and> (\<exists>more. all_finished (run obs w (schedule @ more) (callers n st)))"
proof -
  let ?sys = "run obs w schedule (callers n st)"
  let ?b = "built st (new_object c) mods'"
  have len: "length (threads ?sys) = n" by (simp add: callers_def)
  have inv: "singleton_inv st ?b ?sys"
    by (rule singleton_inv_run [OF assms singleton_inv_callers])
  have fin: "result = Inr (Some (length (heap st)))
             \<and> heap (shared ?sys) = heap st @ [new_object c]
             \<and> constructor_runs (shared ?sys) = Suc (constructor_runs st)"
    if "i < n" "threads ?sys ! i = Finished result" for i result
    using singleton_inv_result [OF inv, of i result] that len by simp
  have at_end: "settings_slot (shared ?sys) = Some (length (heap st)) \<and> \<not> lock_held ?sys"
    if "all_finished ?sys" "0 < n"
  proof -
    from that(2) len have "0 < length (threads ?sys)" by simp
    from singleton_inv_all_finished [OF inv that(1) this] show ?thesis by simp
  qed
  have prog: "\<exists>i<n. work_left (system_step obs w i ?sys) < work_left ?sys"
    if "\<not> all_finished ?sys"
    using singleton_inv_progress [OF inv that, of obs w] len by simp
  from singleton_inv_completes [OF assms inv] obtain more
    where "all_finished (run obs w more ?sys)" by blast
  then have "\<exists>more. all_finished (run obs w (schedule @ more) (callers n st))"
    by (auto simp: run_append)
  with len singleton_inv_runs [OF inv] fin at_end prog show ?thesis by blast
qed

lemma Settings_init_bare:
  "Settings_init obs bare_world mods Falsy =
     (Inr \<lparr>new_object = \<lparr>override_module = None\<rparr>,
           warned = [],
           logged = [(INFO, ''Override settings for pynamo not available /etc/pynamodb/global_default_settings.py''),
                     (INFO, ''Using Default settings value'')]\<rparr>,
      mods)"
  by (simp add: Settings_init_def resolve_settings_path_def getenv_def isfile_def bare_world_def)

lemma racing_callers:
  "run legacy_names bare_world [0, 0, 1, 1, 0, 1, 0, 0, 0, 0, 0, 1, 1, 1, 1]
     (callers 2 SettingsMeta_init)
   = \<lparr>shared = \<lparr>heap = [\<lparr>override_module = None\<rparr>], settings_slot = Some 0,
                 constructor_runs = 1, sessions = 0, sys_modules = Map.empty\<rparr>,
      lock_held = False,
      threads = [Finished (Inr (Some 0)), Finished (Inr (Some 0))]\<rparr>"
  by (simp add: callers_def SettingsMeta_init_def system_step_def construct_def
        Settings_init_bare numeral_2_eq_2)

theorem C4_one_instance_for_all_callers_witness:
  "settings_slot SettingsMeta_init = None
   \<and> threads (run legacy_names bare_world [0, 0, 1, 1, 0, 1, 0, 0, 0, 0, 0, 1, 1, 1, 1]
                (callers 2 SettingsMeta_init))
       = [Finished (Inr (Some 0)), Finished (Inr (Some 0))]
   \<and> constructor_runs
        (shared (run legacy_names bare_world [0, 0, 1, 1, 0, 1, 0, 0, 0, 0, 0, 1, 1, 1, 1]
                  (callers 2 SettingsMeta_init)))
       \<le> 1
   \<and> (\<exists>more. all_finished
                (run legacy_names bare_world
                   ([0, 0, 1, 1, 0, 1, 0, 0, 0, 0, 0, 1, 1, 1, 1] @ more)
                   (callers 2 SettingsMeta_init)))"
proof -
  let ?schedule = "[0, 0, 1, 1, 0, 1, 0, 0, 0, 0, 0, 1, 1, 1, 1]"
  let ?sys = "run legacy_names bare_world ?schedule (callers 2 SettingsMeta_init)"
  have slot: "settings_slot SettingsMeta_init = None" by (simp add: SettingsMeta_init_def)
  have runs: "constructor_runs SettingsMeta_init = 0" by (simp add: SettingsMeta_init_def)
  note all = C4_one_instance_for_all_callers [OF Settings_init_bare slot,
      of legacy_names ?schedule 2]
  from all have "constructor_runs (shared ?sys) \<le> Suc (constructor_runs SettingsMeta_init)"
    by blast
  with runs have a: "constructor_runs (shared ?sys) \<le> 1" by (simp del: run.simps)
  from all have b: "\<exists>more. all_finished
      (run legacy_names bare_world (?schedule @ more) (callers 2 SettingsMeta_init))"
    by blast
  have c: "threads ?sys = [Finished (Inr (Some 0)), Finished (Inr (Some 0))]"
    unfolding racing_callers by simp
  from slot a b c show ?thesis by blast
qed

text \<open>One caller, left alone for eight steps, does what the hook does in one piece.\<close>

lemma single_caller_agrees:
  "run obs w [0, 0, 0, 0, 0, 0, 0, 0] (callers 1 st)
   = \<lparr>shared = snd (SettingsMeta_getattr obs w DEFAULT st),
      lock_held = False,
      threads = [Finished (fst (SettingsMeta_getattr obs w DEFAULT st))]\<rparr>"
proof (cases "settings_slot st")
  case None
  obtain res mods' where r: "Settings_init obs w (sys_modules st) Falsy = (res, mods')"
    by (cases "Settings_init obs w (sys_modules st) Falsy")
  with None show ?thesis
    by (cases res)
       (simp_all add: callers_def system_step_def SettingsMeta_getattr_def construct_def)
next
  case (Some r)
  then show ?thesis
    by (simp add: callers_def system_step_def SettingsMeta_getattr_def)
qed

lemma first_use_without_file:
  "SettingsMeta_getattr obs bare_world DEFAULT SettingsMeta_init
     = (Inr (Some 0),
        \<lparr>heap = [\<lparr>override_module = None\<rparr>], settings_slot = Some 0,
         constructor_runs = 1, sessions = 0, sys_modules = Map.empty\<rparr>)"
  "Settings_getattr (Settings_at Map.empty \<lparr>override_module = None\<rparr>) REGION
     = Inr (PyStr ''us-east-1'')"
  by (simp_all add: SettingsMeta_getattr_def SettingsMeta_init_def construct_def
        Settings_init_bare Settings_getattr_no_override DEFAULT_SETTINGS_def key_names)

text \<open>
  When the override file makes the loader raise, the exception leaves the \<^verbatim>\<open>with\<close> block,
  the slot stays empty, and the next caller runs the constructor again.
\<close>

lemma broken_file_is_loaded_again:
  assumes "files w (resolve_settings_path w Falsy) = Some (Breaks program)"
      and "sys_modules st ''__pynamodb_override_settings__'' = None"
      and "settings_slot st = None"
  shows "run obs w [0, 0, 0, 0, 0, 0, 1, 1, 1, 1, 1, 1] (callers 2 st)
         = \<lparr>shared = st\<lparr>constructor_runs := Suc (Suc (constructor_runs st))\<rparr>,
            lock_held = False,
            threads = [Finished (Inl LoadError), Finished (Inl LoadError)]\<rparr>"
  using assms(2,3)
  by (simp add: callers_def system_step_def construct_def numeral_2_eq_2
        Settings_init_breaks [OF assms(1)])

text \<open>
  C4 as stated does not hold in every world: with an override file at the default path
  whose execution raises, two callers, one after the other, both get the exception and
  the constructor has run twice.
\<close>

theorem C4_constructor_may_run_twice:
  "run legacy_names
     (world_with (Breaks (binds [''region'' \<mapsto> PyStr ''eu-west-1''])))
     [0, 0, 0, 0, 0, 0, 1, 1, 1, 1, 1, 1]
     (callers 2 SettingsMeta_init)
   = \<lparr>shared = \<lparr>heap = [], settings_slot = None, constructor_runs = 2, sessions = 0,
                 sys_modules = Map.empty\<rparr>,
      lock_held = False,
      threads = [Finished (Inl LoadError), Finished (Inl LoadError)]\<rparr>"
proof -
  let ?w = "world_with (Breaks (binds [''region'' \<mapsto> PyStr ''eu-west-1'']))"
  have "files ?w (resolve_settings_path ?w Falsy)
          = Some (Breaks (binds [''region'' \<mapsto> PyStr ''eu-west-1'']))"
    by (rule files_world_with)
  moreover have "sys_modules SettingsMeta_init ''__pynamodb_override_settings__'' = None"
    by (simp add: SettingsMeta_init_def)
  moreover have "settings_slot SettingsMeta_init = None"
    by (simp add: SettingsMeta_init_def)
  ultimately have "run legacy_names ?w [0, 0, 0, 0, 0, 0, 1, 1, 1, 1, 1, 1]
       (callers 2 SettingsMeta_init)
     = \<lparr>shared = SettingsMeta_init
                   \<lparr>constructor_runs := Suc (Suc (constructor_runs SettingsMeta_init))\<rparr>,
        lock_held = False,
        threads = [Finished (Inl LoadError), Finished (Inl LoadError)]\<rparr>"
    by (rule broken_file_is_loaded_again)
  then show ?thesis by (simp add: SettingsMeta_init_def del: run.simps)
qed

end
